theory Spec2Isabelle
  imports Complex_Main
begin

section \<open>Package core: errors, options, tokens (core/contract.go)\<close>

text \<open>
  Conventions of the embedding.
  \<^item> A Go \<open>time.Duration\<close> is an \<open>int\<close> counting nanoseconds.
  \<^item> A PostgreSQL \<open>TIMESTAMPTZ\<close>, and a Go \<open>time.Time\<close> scanned from one, is an
    \<open>int\<close> counting microseconds since the epoch (the resolution of the server).
  \<^item> A Go \<open>float64\<close> is a \<open>real\<close>: rounding, infinities and NaN are not modelled.
  \<^item> Integers are unbounded; the theorems below evaluate the code only where no
    \<open>int64\<close> overflow occurs.
  \<^item> A Go \<open>string\<close> is a \<open>string\<close> (a list of bytes).
\<close>

type_synonym duration = int
type_synonym timestamp = int

definition Millisecond :: duration where "Millisecond = 1000000"
definition Second :: duration where "Second = 1000 * Millisecond"
definition Minute :: duration where "Minute = 60 * Second"

text \<open>Go's integer division truncates towards zero.\<close>

definition quot :: "int \<Rightarrow> int \<Rightarrow> int" where
  "quot a b = (if (a < 0) = (b < 0) then \<bar>a\<bar> div \<bar>b\<bar> else - (\<bar>a\<bar> div \<bar>b\<bar>))"

text \<open>\<open>Duration.Milliseconds\<close>: the duration as a whole number of milliseconds.\<close>

definition Milliseconds :: "duration \<Rightarrow> int" where
  "Milliseconds d = quot d 1000000"

text \<open>
  Errors of the PostgreSQL driver, as values: \<open>pgx.ErrNoRows\<close>, the error of a pool
  that was closed, and any other error (a server exception with its message or
  SQLSTATE, a timeout, a scan failure).
\<close>

datatype pg_error = ErrNoRows | ErrClosedPool | PgError string

text \<open>
  The errors the adapter hands to its caller. The first nine are the sentinel values
  of package core, in the order of their declaration; \<open>ErrInvalidTTL\<close> and
  \<open>ErrInvalidKeyFormat\<close> carry the value that \<open>fmt.Errorf("%w: ...")\<close> wraps with them.
  \<open>ErrRetryStrategy\<close> is an \<open>errors.New\<close> of \<open>RetryStrategy.Validate\<close> with its message,
  \<open>ErrFailedToAcquire e\<close> is \<open>fmt.Errorf("failed to acquire lock: %w", e)\<close>, and
  \<open>ErrBackend e\<close> is a driver error returned as it is.
\<close>

datatype lock_error =
    ErrLockAcquisitionFailed
  | ErrLockOwnershipMismatch
  | ErrInvalidTTL duration
  | ErrAdapterClosed
  | ErrLockContention
  | ErrInvalidKeyFormat string
  | ErrRefreshTooLate
  | ErrOperationTimeout
  | ErrLockNotFound
  | ErrRetryStrategy string
  | ErrFailedToAcquire pg_error
  | ErrBackend pg_error

definition MinLockTTL :: duration where "MinLockTTL = 1 * Millisecond"
definition MaxLockTTL :: duration where "MaxLockTTL = 10 * Minute"
definition MaxKeyLength :: nat where "MaxKeyLength = 256"
definition DefaultRequestTimeout :: duration where "DefaultRequestTimeout = 3 * Second"

record RetryStrategy =
  MaxRetries :: int
  BaseDelay :: duration
  MaxDelay :: duration
  JitterFactor :: real
  BackoffFactor :: real

record LockOptions =
  TTL :: duration
  RetryStrategy :: RetryStrategy
  Metadata :: "(string \<times> string) list option"
  RequestTimeout :: duration

record LockToken =
  Key :: string
  LeaseID :: string
  ValidUntil :: timestamp
  ServerNonce :: string

text \<open>
  \<open>RetryStrategy.Validate\<close>: three checks, in the order of the source. The messages
  are spelled in ASCII.
\<close>

definition RetryStrategy_Validate :: "RetryStrategy \<Rightarrow> lock_error option" where
  "RetryStrategy_Validate r =
     (if MaxRetries r < 0 then Some (ErrRetryStrategy ''max retries must be >= 0'')
      else if JitterFactor r < 0 \<or> JitterFactor r > 1
        then Some (ErrRetryStrategy ''jitter factor must be [0.0, 1.0]'')
      else if BackoffFactor r < 1
        then Some (ErrRetryStrategy ''backoff factor must be >= 1'')
      else None)"

text \<open>
  \<open>LockOptions.Validate\<close> has a pointer receiver and may overwrite \<open>RequestTimeout\<close>, so
  the model returns the options as they are left, together with the error (if any).
\<close>

definition LockOptions_Validate :: "LockOptions \<Rightarrow> lock_error option \<times> LockOptions" where
  "LockOptions_Validate o1 =
     (if TTL o1 < MinLockTTL \<or> TTL o1 > MaxLockTTL then (Some (ErrInvalidTTL (TTL o1)), o1)
      else
        let o2 = (if RequestTimeout o1 \<le> 0
                  then o1\<lparr>RequestTimeout := DefaultRequestTimeout\<rparr> else o1)
        in (RetryStrategy_Validate (RetryStrategy o2), o2))"

text \<open>
  \<open>ValidateKey\<close>: the key must match \<open>^[a-zA-Z0-9_-]{1,256}$\<close>. Every character of the
  class is ASCII, so the match counts bytes.
\<close>

definition key_char :: "char \<Rightarrow> bool" where
  "key_char c =
     (let n = (of_char c :: nat) in
        (97 \<le> n \<and> n \<le> 122) \<or> (65 \<le> n \<and> n \<le> 90) \<or> (48 \<le> n \<and> n \<le> 57) \<or>
        c = CHR ''_'' \<or> c = CHR ''-'')"

definition validKeyRegex :: "string \<Rightarrow> bool" where
  "validKeyRegex k = (1 \<le> length k \<and> length k \<le> 256 \<and> list_all key_char k)"

definition ValidateKey :: "string \<Rightarrow> lock_error option" where
  "ValidateKey k = (if \<not> validKeyRegex k then Some (ErrInvalidKeyFormat k) else None)"

text \<open>
  \<open>CalculateBackoff\<close>: the power is computed in floating point and converted to a
  \<open>time.Duration\<close> (an integer: the conversion truncates) before the multiplication by
  \<open>BaseDelay\<close>. \<open>JitterFactor\<close> is not read.
\<close>

definition trunc :: "real \<Rightarrow> int" where
  "trunc x = (if x < 0 then \<lceil>x\<rceil> else \<lfloor>x\<rfloor>)"

definition CalculateBackoff :: "RetryStrategy \<Rightarrow> nat \<Rightarrow> duration" where
  "CalculateBackoff strategy attempt =
     (let delay = BaseDelay strategy * trunc (BackoffFactor strategy ^ attempt)
      in if delay > MaxDelay strategy then MaxDelay strategy else delay)"

datatype HealthStatus = StatusGreen | StatusYellow | StatusRed

text \<open>
  The \<open>Error\<close> field of a report is a Go \<open>error\<close>: \<open>None\<close> is \<open>nil\<close>, and \<open>Some m\<close> is the
  value \<open>errors.New(m)\<close>.
\<close>

record HealthReport =
  Status :: HealthStatus
  Latency :: duration
  Throughput :: real
  Error :: "string option"


section \<open>The lease table and its atomic acquisition (migrations/v0.0.1.sql)\<close>

text \<open>
  One row of the lock table. The primary key \<open>key\<close> is the argument of the table, a
  map from keys to rows, so that a key has at most one row. \<open>metadata\<close> is the JSONB
  text the caller sent.
\<close>

record lease =
  lease_id :: string
  valid_until :: timestamp
  server_nonce :: string
  metadata :: string
  created_at :: timestamp
  updated_at :: timestamp

type_synonym lock_table = "string \<rightharpoonup> lease"

text \<open>
  The PL/pgSQL function \<open>try_acquire_lock\<close>, run at the instant \<open>now\<close> (the value of
  \<open>NOW()\<close>, in microseconds; \<open>_ttl_ms\<close> counts milliseconds). It returns the row
  \<open>(result_acquired, result_valid_until)\<close>, whose second column is NULL (\<open>None\<close>)
  when nothing was written, or raises the exception of its security check. The
  \<open>unique_violation\<close> handler is reached only when two sessions insert at once, which a
  run of one statement at a time does not have.
\<close>

definition try_acquire_lock ::
  "lock_table \<Rightarrow> timestamp \<Rightarrow> string \<Rightarrow> string \<Rightarrow> int \<Rightarrow> string \<Rightarrow> string
     \<Rightarrow> (pg_error + bool \<times> timestamp option) \<times> lock_table" where
  "try_acquire_lock tbl now p_key p_lease_id p_ttl_ms p_nonce p_metadata =
     (if length p_key > 256 \<or> \<not> (p_key \<noteq> [] \<and> list_all key_char p_key)
      then (Inl (PgError ''22023: Invalid key format''), tbl)
      else
        let expires = now + p_ttl_ms * 1000 + 10 * 1000 in
        case tbl p_key of
          None \<Rightarrow>
            (Inr (True, Some expires),
             tbl(p_key \<mapsto> \<lparr>lease_id = p_lease_id, valid_until = expires,
                            server_nonce = p_nonce, metadata = p_metadata,
                            created_at = now, updated_at = now\<rparr>))
        | Some row \<Rightarrow>
            if valid_until row \<le> now
            then (Inr (True, Some expires),
                  tbl(p_key \<mapsto> row\<lparr>lease_id := p_lease_id, valid_until := expires,
                                    server_nonce := p_nonce, metadata := p_metadata,
                                    updated_at := now\<rparr>))
            else (Inr (False, None), tbl))"

section \<open>The PostgreSQL adapter (package pg)\<close>

text \<open>
  The pool the adapter was built with, as far as the adapter uses it: the lock table
  behind it, and the condition of the connection. With \<open>fault = None\<close> a statement runs;
  with \<open>fault = Some e\<close> every call fails with \<open>e\<close> and changes nothing. Closing the pool
  leaves it failing every call with its closed-pool error.
\<close>

record pg_pool =
  fault :: "pg_error option"
  locks :: lock_table

text \<open>\<open>pool.Exec\<close>: the number of rows the statement affected.\<close>

definition pool_Exec ::
  "pg_pool \<Rightarrow> (lock_table \<Rightarrow> nat \<times> lock_table) \<Rightarrow> (pg_error + nat) \<times> pg_pool" where
  "pool_Exec pool stmt =
     (case fault pool of
        Some e \<Rightarrow> (Inl e, pool)
      | None \<Rightarrow> (case stmt (locks pool) of (n, tbl) \<Rightarrow> (Inr n, pool\<lparr>locks := tbl\<rparr>)))"

text \<open>\<open>pool.QueryRow\<close> followed by \<open>Scan\<close>: the first row, or \<open>pgx.ErrNoRows\<close>.\<close>

definition pool_QueryRow ::
  "pg_pool \<Rightarrow> (lock_table \<Rightarrow> 'a option \<times> lock_table) \<Rightarrow> (pg_error + 'a) \<times> pg_pool" where
  "pool_QueryRow pool stmt =
     (case fault pool of
        Some e \<Rightarrow> (Inl e, pool)
      | None \<Rightarrow>
          (case stmt (locks pool) of
             (None, tbl) \<Rightarrow> (Inl ErrNoRows, pool\<lparr>locks := tbl\<rparr>)
           | (Some r, tbl) \<Rightarrow> (Inr r, pool\<lparr>locks := tbl\<rparr>)))"

text \<open>\<open>Close\<close> closes the pool and returns \<open>nil\<close>.\<close>

definition Close :: "pg_pool \<Rightarrow> lock_error option \<times> pg_pool" where
  "Close pool = (None, pool\<lparr>fault := Some ErrClosedPool\<rparr>)"

subsection \<open>Release\<close>

definition releaseLockSQL ::
  "lock_table \<Rightarrow> string \<Rightarrow> string \<Rightarrow> string \<Rightarrow> nat \<times> lock_table" where
  "releaseLockSQL tbl k lid nonce =
     (case tbl k of
        None \<Rightarrow> (0, tbl)
      | Some row \<Rightarrow>
          if lease_id row = lid \<and> server_nonce row = nonce then (1, tbl(k := None))
          else (0, tbl))"

definition Release :: "pg_pool \<Rightarrow> LockToken \<Rightarrow> lock_error option \<times> pg_pool" where
  "Release pool token =
     (case pool_Exec pool
             (\<lambda>tbl. releaseLockSQL tbl (Key token) (LeaseID token) (ServerNonce token)) of
        (Inl err, pool') \<Rightarrow>
          (if err = ErrNoRows then Some ErrLockOwnershipMismatch else Some (ErrBackend err),
           pool')
      | (Inr rowsAffected, pool') \<Rightarrow>
          (if rowsAffected = 0 then Some ErrLockOwnershipMismatch else None, pool'))"

subsection \<open>Refresh\<close>

text \<open>
  \<open>pool.QueryRow\<close> followed by \<open>Scan\<close> for a statement that the server may refuse: the
  server's error, the first row, or \<open>pgx.ErrNoRows\<close>.
\<close>

definition pool_QueryRow_checked ::
  "pg_pool \<Rightarrow> (lock_table \<Rightarrow> (pg_error + 'a option) \<times> lock_table)
     \<Rightarrow> (pg_error + 'a) \<times> pg_pool" where
  "pool_QueryRow_checked pool stmt =
     (case fault pool of
        Some e \<Rightarrow> (Inl e, pool)
      | None \<Rightarrow>
          (case stmt (locks pool) of
             (Inl e, tbl) \<Rightarrow> (Inl e, pool\<lparr>locks := tbl\<rparr>)
           | (Inr None, tbl) \<Rightarrow> (Inl ErrNoRows, pool\<lparr>locks := tbl\<rparr>)
           | (Inr (Some r), tbl) \<Rightarrow> (Inr r, pool\<lparr>locks := tbl\<rparr>)))"

text \<open>
  The statement \<open>refreshLockSQL\<close>, as its text reads. It names the values \<open>$ttl\<close> and
  \<open>$new_nonce\<close> beside the positional \<open>$1\<close>, \<open>$2\<close> and \<open>$3\<close>; \<open>arg\<close> gives, by name,
  the values the caller bound. A value that was not bound leaves the server with a
  \<open>$\<close> it cannot read. And the \<open>;\<close> that follows the \<open>WHERE\<close> clause ends the \<open>UPDATE\<close>
  there, so that \<open>RETURNING valid_until\<close> stands as a command of its own, which it is
  not. In both cases the server refuses the text when it parses it, before it runs any
  part of it: the query ends in the server's error and the table is what it was. No
  branch of the statement updates a row.
\<close>

definition refreshLockSQL ::
  "(string \<rightharpoonup> string) \<Rightarrow> lock_table \<Rightarrow> timestamp
     \<Rightarrow> (pg_error + timestamp option) \<times> lock_table" where
  "refreshLockSQL arg tbl now =
     (if arg ''ttl'' = None \<or> arg ''new_nonce'' = None
      then (Inl (PgError ''42601: syntax error at or near $''), tbl)
      else (Inl (PgError ''42601: syntax error at or near RETURNING''), tbl))"

text \<open>
  \<open>Refresh\<close> sends the statement with three arguments, the token's key, lease id and
  nonce, which bind \<open>$1\<close>, \<open>$2\<close> and \<open>$3\<close>. It does not read \<open>newTTL\<close> and draws no nonce.
  \<open>Refresh_scanned\<close> is the rest of the function, from the outcome of \<open>Scan\<close> on: the
  new expiry is written into the token that was passed in, and that token is returned.
\<close>

definition Refresh_scanned :: "LockToken \<Rightarrow> pg_error + timestamp \<Rightarrow> lock_error + LockToken" where
  "Refresh_scanned token r =
     (case r of
        Inl err \<Rightarrow> if err = ErrNoRows then Inl ErrRefreshTooLate else Inl (ErrBackend err)
      | Inr valid_until' \<Rightarrow> Inr (token\<lparr>ValidUntil := valid_until'\<rparr>))"

definition Refresh ::
  "pg_pool \<Rightarrow> timestamp \<Rightarrow> LockToken \<Rightarrow> duration \<Rightarrow> (lock_error + LockToken) \<times> pg_pool" where
  "Refresh pool now token newTTL =
     (case pool_QueryRow_checked pool
             (\<lambda>tbl. refreshLockSQL
                      [''1'' \<mapsto> Key token, ''2'' \<mapsto> LeaseID token, ''3'' \<mapsto> ServerNonce token]
                      tbl now) of
        (r, pool') \<Rightarrow> (Refresh_scanned token r, pool'))"

subsection \<open>IsHeld\<close>

text \<open>
  \<open>isHeldLockSQL\<close> returns \<open>is_locked\<close> and \<open>remaining_ttl\<close>, the seconds left as a
  fraction; \<open>IsHeld\<close> converts them to a whole number of seconds (\<open>time.Duration\<close> of
  a \<open>float64\<close> truncates) and multiplies by \<open>time.Second\<close>.
\<close>

definition isHeldLockSQL :: "lock_table \<Rightarrow> timestamp \<Rightarrow> string \<Rightarrow> (bool \<times> real) option" where
  "isHeldLockSQL tbl now k =
     (case tbl k of
        None \<Rightarrow> None
      | Some row \<Rightarrow> Some (valid_until row > now, real_of_int (valid_until row - now) / 1000000))"

definition IsHeld :: "pg_pool \<Rightarrow> timestamp \<Rightarrow> LockToken \<Rightarrow> bool \<times> duration \<times> lock_error option" where
  "IsHeld pool now token =
     (case fst (pool_QueryRow pool (\<lambda>tbl. (isHeldLockSQL tbl now (Key token), tbl))) of
        Inl err \<Rightarrow>
          if err = ErrNoRows then (False, 0, None) else (False, 0, Some (ErrBackend err))
      | Inr (isLocked, remainingTTL) \<Rightarrow> (isLocked, trunc remainingTTL * Second, None))"

subsection \<open>HealthCheck\<close>

text \<open>The text of a driver error (\<open>err.Error()\<close>).\<close>

fun pg_error_text :: "pg_error \<Rightarrow> string" where
  "pg_error_text ErrNoRows = ''no rows in result set''"
| "pg_error_text ErrClosedPool = ''closed pool''"
| "pg_error_text (PgError m) = m"

text \<open>
  \<open>HealthCheck\<close> probes with \<open>SELECT 1\<close>. \<open>probe\<close> is what the scan of that row gives
  (the driver's error, or the integer read), \<open>latency\<close> the time measured around it and
  \<open>acquiredConns\<close> the pool's statistic. \<open>result\<close> keeps its zero value when the scan
  fails.
\<close>

definition HealthCheck :: "(pg_error + int) \<Rightarrow> duration \<Rightarrow> int \<Rightarrow> HealthReport" where
  "HealthCheck probe latency acquiredConns =
     (let err = (case probe of Inl e \<Rightarrow> Some e | Inr _ \<Rightarrow> None);
          result = (case probe of Inl _ \<Rightarrow> 0 | Inr n \<Rightarrow> n);
          (status, errMsg) =
            (if err \<noteq> None \<or> result \<noteq> 1
             then (StatusRed,
                   case err of Some e \<Rightarrow> pg_error_text e
                   | None \<Rightarrow> ''unexpected query result'')
             else (StatusGreen, ''''))
      in \<lparr>Status = status, Latency = latency, Throughput = real_of_int acquiredConns,
          Error = Some errMsg\<rparr>)"

text \<open>The probe against a pool: it fails with the pool's fault, and reads 1 otherwise.\<close>

definition pool_probe :: "pg_pool \<Rightarrow> pg_error + int" where
  "pool_probe pool = fst (pool_QueryRow pool (\<lambda>tbl. (Some 1, tbl)))"

subsection \<open>Acquire\<close>

text \<open>
  The query of one attempt, \<open>SELECT * FROM try_acquire_lock($1, $2, $3, $4, $5)\<close>, sent
  at the instant \<open>now\<close> with the key, the lease id, \<open>opts.TTL.Milliseconds()\<close>, the
  nonce and the marshalled metadata. Its row has a NULL \<open>valid_until\<close> when the lock was
  not acquired. What \<open>Scan\<close> makes of the row is the driver's business; the loop below
  takes the outcome of the scan as given.
\<close>

definition Acquire_query ::
  "pg_pool \<Rightarrow> timestamp \<Rightarrow> string \<Rightarrow> string \<Rightarrow> duration \<Rightarrow> string \<Rightarrow> string
     \<Rightarrow> (pg_error + bool \<times> timestamp option) \<times> pg_pool" where
  "Acquire_query pool now key leaseID ttl nonce metadata' =
     (case fault pool of
        Some e \<Rightarrow> (Inl e, pool)
      | None \<Rightarrow>
          (case try_acquire_lock (locks pool) now key leaseID (Milliseconds ttl) nonce
                  metadata' of
             (r, tbl) \<Rightarrow> (r, pool\<lparr>locks := tbl\<rparr>)))"

text \<open>
  The retry loop of \<open>Acquire\<close>. \<open>q attempt\<close> is what the query of that attempt and its
  \<open>Scan\<close> give: a driver error, or the pair \<open>(acquired, validUntil)\<close>. The loop returns
  the result, the list of the delays it slept (in order) and the number of queries it
  sent. \<open>leaseID\<close> and \<open>nonce\<close> are the two identifiers drawn before the loop.
\<close>

function Acquire_loop ::
  "(nat \<Rightarrow> pg_error + bool \<times> timestamp) \<Rightarrow> RetryStrategy \<Rightarrow> string \<Rightarrow> string \<Rightarrow> string
     \<Rightarrow> nat \<Rightarrow> duration list \<Rightarrow> (lock_error + LockToken) \<times> duration list \<times> nat" where
  "Acquire_loop q strategy key leaseID nonce attempt slept =
     (if int attempt \<le> MaxRetries strategy then
        (case q attempt of
           Inl err \<Rightarrow> (Inl (ErrFailedToAcquire err), slept, Suc attempt)
         | Inr (acquired, validUntil) \<Rightarrow>
             if acquired
             then (Inr \<lparr>Key = key, LeaseID = leaseID, ValidUntil = validUntil,
                        ServerNonce = nonce\<rparr>, slept, Suc attempt)
             else Acquire_loop q strategy key leaseID nonce (Suc attempt)
                    (slept @ [CalculateBackoff strategy attempt]))
      else (Inl ErrLockAcquisitionFailed, slept, attempt))"
  by pat_completeness auto
termination
  by (relation "measure (\<lambda>(q, strategy, key, leaseID, nonce, attempt, slept).
         nat (MaxRetries strategy + 1 - int attempt))") auto

declare Acquire_loop.simps [simp del]

text \<open>
  \<open>Acquire\<close>: the two validations, then the loop from attempt 0. Marshalling a
  \<open>map[string]string\<close> has no error, so that return is left out.
\<close>

definition Acquire ::
  "(nat \<Rightarrow> pg_error + bool \<times> timestamp) \<Rightarrow> string \<Rightarrow> LockOptions \<Rightarrow> string \<Rightarrow> string
     \<Rightarrow> (lock_error + LockToken) \<times> duration list \<times> nat" where
  "Acquire q key opts leaseID nonce =
     (case ValidateKey key of
        Some err \<Rightarrow> (Inl err, [], 0)
      | None \<Rightarrow>
          (case LockOptions_Validate opts of
             (Some err, opts') \<Rightarrow> (Inl err, [], 0)
           | (None, opts') \<Rightarrow> Acquire_loop q (RetryStrategy opts') key leaseID nonce 0 []))"

text \<open>
  The attempts of \<open>Acquire\<close> against a pool: a pool with a fault fails every query with
  it, and otherwise \<open>q\<close> tells what each attempt gives.
\<close>

definition pool_scan ::
  "pg_pool \<Rightarrow> (nat \<Rightarrow> pg_error + bool \<times> timestamp) \<Rightarrow> nat \<Rightarrow> pg_error + bool \<times> timestamp" where
  "pool_scan pool q attempt = (case fault pool of Some e \<Rightarrow> Inl e | None \<Rightarrow> q attempt)"

section \<open>Vocabulary of the properties\<close>

text \<open>A key is free at \<open>now\<close> when it has no row, or a row whose \<open>valid_until\<close> has elapsed.\<close>

definition lease_free :: "lock_table \<Rightarrow> timestamp \<Rightarrow> string \<Rightarrow> bool" where
  "lease_free tbl now k = (case tbl k of None \<Rightarrow> True | Some row \<Rightarrow> valid_until row \<le> now)"

text \<open>A token matches the table when its key has a row with its lease id and nonce.\<close>

definition token_matches :: "lock_table \<Rightarrow> LockToken \<Rightarrow> bool" where
  "token_matches tbl t =
     (case tbl (Key t) of
        None \<Rightarrow> False
      | Some row \<Rightarrow> lease_id row = LeaseID t \<and> server_nonce row = ServerNonce t)"


text \<open>The validation errors: those of \<open>ValidateKey\<close> and of the two \<open>Validate\<close>.\<close>

fun is_validation_error :: "lock_error + LockToken \<Rightarrow> bool" where
  "is_validation_error (Inl (ErrInvalidKeyFormat _)) = True"
| "is_validation_error (Inl (ErrInvalidTTL _)) = True"
| "is_validation_error (Inl (ErrRetryStrategy _)) = True"
| "is_validation_error _ = False"

text \<open>
  The delay as the specification writes it,
  \<open>min(maxDelay, baseDelay \<times> backoffFactor^i)\<close>, and the bounds it puts on a retry
  strategy. Neither is taken from the code.
\<close>

definition spec_backoff :: "RetryStrategy \<Rightarrow> nat \<Rightarrow> real" where
  "spec_backoff s i =
     min (real_of_int (MaxDelay s)) (real_of_int (BaseDelay s) * BackoffFactor s ^ i)"

definition spec_retry_bounds :: "RetryStrategy \<Rightarrow> bool" where
  "spec_retry_bounds r =
     (MaxRetries r \<ge> 0 \<and> BaseDelay r > 0 \<and> MaxDelay r \<ge> BaseDelay r \<and>
      BackoffFactor r \<ge> 1 \<and> 0 \<le> JitterFactor r \<and> JitterFactor r \<le> 1)"

subsection \<open>Inputs for the instances\<close>

text \<open>The strategy and the options of the repository's tests.\<close>

definition strategy_test :: RetryStrategy where
  "strategy_test = \<lparr>MaxRetries = 5, BaseDelay = 100 * Millisecond, MaxDelay = 10 * Second,
                     JitterFactor = 2 / 10, BackoffFactor = 2\<rparr>"

definition opts_test :: LockOptions where
  "opts_test = \<lparr>TTL = 10 * Second, RetryStrategy = strategy_test, Metadata = None,
                 RequestTimeout = 5 * Second\<rparr>"

text \<open>A strategy without jitter whose factor is not a whole number.\<close>

definition strategy_fractional :: RetryStrategy where
  "strategy_fractional = \<lparr>MaxRetries = 5, BaseDelay = 100 * Millisecond,
                           MaxDelay = 10 * Second, JitterFactor = 0, BackoffFactor = 3 / 2\<rparr>"

text \<open>The options of the tests with both delays of the strategy set to 0.\<close>

definition opts_zero_delay :: LockOptions where
  "opts_zero_delay = \<lparr>TTL = 10 * Second,
                       RetryStrategy = \<lparr>MaxRetries = 5, BaseDelay = 0, MaxDelay = 0,
                                         JitterFactor = 2 / 10, BackoffFactor = 2\<rparr>,
                       Metadata = None, RequestTimeout = 5 * Second\<rparr>"

text \<open>
  A lease on \<open>job-42\<close> written at instant 0 with a TTL of ten seconds, the pool that holds
  it, the token of its holder, and a token of another caller for the same key.
\<close>

definition lease_A :: lease where
  "lease_A = \<lparr>lease_id = ''lease-A'', valid_until = 10010000, server_nonce = ''nonce-A'',
               metadata = ''null'', created_at = 0, updated_at = 0\<rparr>"

definition table_A :: lock_table where
  "table_A = [''job-42'' \<mapsto> lease_A]"

definition pool_A :: pg_pool where
  "pool_A = \<lparr>fault = None, locks = table_A\<rparr>"

definition token_A :: LockToken where
  "token_A = \<lparr>Key = ''job-42'', LeaseID = ''lease-A'', ValidUntil = 10010000,
               ServerNonce = ''nonce-A''\<rparr>"

definition token_B :: LockToken where
  "token_B = \<lparr>Key = ''job-42'', LeaseID = ''lease-B'', ValidUntil = 77,
               ServerNonce = ''nonce-B''\<rparr>"

text \<open>Three backends as the loop sees them.\<close>

definition q_third_grant :: "nat \<Rightarrow> pg_error + bool \<times> timestamp" where
  "q_third_grant n = (if n < 2 then Inr (False, 0) else Inr (True, 10010000))"


definition q_busy :: "nat \<Rightarrow> pg_error + bool \<times> timestamp" where
  "q_busy n = Inr (False, 0)"

section \<open>Properties\<close>

subsection \<open>Shared lemmas\<close>

lemma test_inputs_valid:
  "ValidateKey ''job-42'' = None \<and> fst (LockOptions_Validate opts_test) = None"
  by (simp add: ValidateKey_def validKeyRegex_def key_char_def LockOptions_Validate_def
      RetryStrategy_Validate_def opts_test_def strategy_test_def MinLockTTL_def MaxLockTTL_def
      Millisecond_def Second_def Minute_def Let_def)


lemma Acquire_loop_grant:
  "int i \<le> MaxRetries rs \<Longrightarrow> q i = Inr (True, vu) \<Longrightarrow>
   Acquire_loop q rs key l n i s =
     (Inr \<lparr>Key = key, LeaseID = l, ValidUntil = vu, ServerNonce = n\<rparr>, s, Suc i)"
  by (subst Acquire_loop.simps) simp

lemma Acquire_loop_abort:
  "int i \<le> MaxRetries rs \<Longrightarrow> q i = Inl e \<Longrightarrow>
   Acquire_loop q rs key l n i s = (Inl (ErrFailedToAcquire e), s, Suc i)"
  by (subst Acquire_loop.simps) simp

lemma Acquire_loop_retry:
  "int i \<le> MaxRetries rs \<Longrightarrow> q i = Inr (False, vu) \<Longrightarrow>
   Acquire_loop q rs key l n i s =
     Acquire_loop q rs key l n (Suc i) (s @ [CalculateBackoff rs i])"
  by (subst Acquire_loop.simps) simp

lemma Acquire_loop_exhausted:
  "\<not> int i \<le> MaxRetries rs \<Longrightarrow>
   Acquire_loop q rs key l n i s = (Inl ErrLockAcquisitionFailed, s, i)"
  by (subst Acquire_loop.simps) simp

text \<open>The loop ends in a token or in one of its two errors, whatever the backend does.\<close>

lemma Acquire_loop_result:
  "(\<exists>t. fst (Acquire_loop q rs key l n a s) = Inr t) \<or>
   (\<exists>e. fst (Acquire_loop q rs key l n a s) = Inl (ErrFailedToAcquire e)) \<or>
   fst (Acquire_loop q rs key l n a s) = Inl ErrLockAcquisitionFailed"
proof (induction q rs key l n a s rule: Acquire_loop.induct)
  case (1 q strategy key leaseID nonce attempt slept)
  show ?case
  proof (cases "int attempt \<le> MaxRetries strategy")
    case False
    then show ?thesis by (simp add: Acquire_loop_exhausted)
  next
    case True
    show ?thesis
    proof (cases "q attempt")
      case (Inl e)
      with True show ?thesis by (simp add: Acquire_loop_abort)
    next
      case (Inr r)
      obtain acquired vu where r: "r = (acquired, vu)" by (cases r)
      show ?thesis
      proof (cases acquired)
        case True
        with \<open>int attempt \<le> MaxRetries strategy\<close> Inr r show ?thesis
          by (simp add: Acquire_loop_grant)
      next
        case False
        have "Acquire_loop q strategy key leaseID nonce attempt slept =
              Acquire_loop q strategy key leaseID nonce (Suc attempt)
                (slept @ [CalculateBackoff strategy attempt])"
          using \<open>int attempt \<le> MaxRetries strategy\<close> Inr r False
          by (subst Acquire_loop.simps) simp
        then show ?thesis
          using "1.IH"[OF \<open>int attempt \<le> MaxRetries strategy\<close> Inr r[symmetric]] False
          by simp
      qed
    qed
  qed
qed

lemma Acquire_loop_not_validation:
  "\<not> is_validation_error (fst (Acquire_loop q rs key l n a s))"
  using Acquire_loop_result[of q rs key l n a s] by auto

lemma Acquire_valid:
  "ValidateKey key = None \<Longrightarrow> fst (LockOptions_Validate opts) = None \<Longrightarrow>
   Acquire q key opts l n = Acquire_loop q (RetryStrategy opts) key l n 0 []"
  by (auto simp add: Acquire_def LockOptions_Validate_def Let_def
      split: if_splits prod.splits option.splits)


lemma Acquire_invalid_key:
  "ValidateKey key = Some e \<Longrightarrow> Acquire q key opts l n = (Inl e, [], 0)"
  by (simp add: Acquire_def)

lemma Acquire_invalid_opts:
  "ValidateKey key = None \<Longrightarrow> fst (LockOptions_Validate opts) = Some e \<Longrightarrow>
   Acquire q key opts l n = (Inl e, [], 0)"
  by (auto simp add: Acquire_def split: prod.splits option.splits)

lemma ValidateKey_error:
  "ValidateKey key = Some e \<Longrightarrow> e = ErrInvalidKeyFormat key"
  by (auto simp add: ValidateKey_def split: if_splits)

lemma LockOptions_Validate_error:
  "fst (LockOptions_Validate opts) = Some e \<Longrightarrow>
   (\<exists>d. e = ErrInvalidTTL d) \<or> (\<exists>m. e = ErrRetryStrategy m)"
  by (auto simp add: LockOptions_Validate_def RetryStrategy_Validate_def Let_def
      split: if_splits)

lemma pool_QueryRow_fault:
  "fault pool = Some e \<Longrightarrow> pool_QueryRow pool stmt = (Inl e, pool)"
  by (simp add: pool_QueryRow_def)

text \<open>\<open>Refresh\<close> on a pool with a fault, and on one without.\<close>

lemma Refresh_fault:
  "fault pool = Some e \<Longrightarrow>
   Refresh pool now token newTTL =
     (if e = ErrNoRows then Inl ErrRefreshTooLate else Inl (ErrBackend e), pool)"
  by (simp add: Refresh_def pool_QueryRow_checked_def Refresh_scanned_def)

lemma Refresh_reachable:
  "fault pool = None \<Longrightarrow>
   Refresh pool now token newTTL =
     (Inl (ErrBackend (PgError ''42601: syntax error at or near $'')), pool)"
  by (simp add: Refresh_def pool_QueryRow_checked_def refreshLockSQL_def Refresh_scanned_def)

text \<open>
  The security check of \<open>try_acquire_lock\<close> refuses exactly the keys that
  \<open>ValidateKey\<close> refuses, with an exception and no write.
\<close>

lemma try_acquire_lock_invalid_key:
  "\<not> validKeyRegex k \<Longrightarrow>
   try_acquire_lock tbl now k lid ttl nonce md =
     (Inl (PgError ''22023: Invalid key format''), tbl)"
  by (cases k) (auto simp add: try_acquire_lock_def validKeyRegex_def)

text \<open>
  The query of an attempt with the options of the tests, on the pool that holds A's
  lease: contended at instant 0, and a grant until 30.01 s at instant 20 s.
\<close>

lemma Acquire_query_test:
  "fst (Acquire_query pool_A 0 ''job-42'' ''lease-B'' (TTL opts_test) ''nonce-B'' ''null'') =
     Inr (False, None) \<and>
   fst (Acquire_query pool_A 20000000 ''job-42'' ''lease-B'' (TTL opts_test) ''nonce-B''
          ''null'') = Inr (True, Some 30010000)"
  by (simp add: Acquire_query_def try_acquire_lock_def key_char_def pool_A_def table_A_def
      lease_A_def opts_test_def Milliseconds_def quot_def Second_def Millisecond_def
      split: prod.splits)

subsection \<open>try_acquire_lock\<close>

text \<open>
  Claim C1. For every key of the format that both \<open>ValidateKey\<close> and the function's
  own check accept, \<open>try_acquire_lock\<close> acquires exactly when the key is free: it has
  no row, or a row whose \<open>valid_until\<close> is not after \<open>now\<close>. Then the table gets, at that
  key, a row with the caller's lease id, nonce and metadata and with
  \<open>valid_until = now + ttl + 10 ms\<close>, and the function returns \<open>acquired = true\<close> with
  that instant. When the key has an unexpired row, the table is left as it is and the
  function returns \<open>acquired = false\<close> with no error. (Instants are in microseconds and
  the TTL in milliseconds, so the sum reads \<open>now + ttl * 1000 + 10000\<close>.)
\<close>

theorem try_acquire_lock_spec:
  assumes "validKeyRegex k"
  shows
   "(fst (try_acquire_lock tbl now k lid ttl nonce md) =
       Inr (True, Some (now + ttl * 1000 + 10000)) \<longleftrightarrow> lease_free tbl now k) \<and>
    (lease_free tbl now k \<longrightarrow>
       (\<exists>r. snd (try_acquire_lock tbl now k lid ttl nonce md) = tbl(k \<mapsto> r) \<and>
            lease_id r = lid \<and> server_nonce r = nonce \<and> metadata r = md \<and>
            valid_until r = now + ttl * 1000 + 10000)) \<and>
    (\<not> lease_free tbl now k \<longrightarrow>
       try_acquire_lock tbl now k lid ttl nonce md = (Inr (False, None), tbl))"
  using assms
  by (auto simp add: try_acquire_lock_def validKeyRegex_def lease_free_def Let_def
      split: option.splits)

text \<open>
  Three calls for \<open>job-42\<close> with a TTL of 10 s: on the empty table at instant 0 (a new
  row), on the table holding A's lease at instant 0 (contention: nothing is written), and
  on the same table at instant 20 s, after A's lease has lapsed (B takes the row over).
\<close>

theorem try_acquire_lock_spec_witness:
  "validKeyRegex ''job-42'' \<and>
   lease_free Map.empty 0 ''job-42'' \<and>
   try_acquire_lock Map.empty 0 ''job-42'' ''lease-A'' 10000 ''nonce-A'' ''null'' =
     (Inr (True, Some 10010000), table_A) \<and>
   \<not> lease_free table_A 0 ''job-42'' \<and>
   try_acquire_lock table_A 0 ''job-42'' ''lease-B'' 10000 ''nonce-B'' ''null'' =
     (Inr (False, None), table_A) \<and>
   lease_free table_A 20000000 ''job-42'' \<and>
   fst (try_acquire_lock table_A 20000000 ''job-42'' ''lease-B'' 10000 ''nonce-B'' ''null'') =
     Inr (True, Some 30010000) \<and>
   (\<exists>r. snd (try_acquire_lock table_A 20000000 ''job-42'' ''lease-B'' 10000 ''nonce-B''
              ''null'') = table_A(''job-42'' \<mapsto> r) \<and>
        lease_id r = ''lease-B'' \<and> server_nonce r = ''nonce-B'' \<and> metadata r = ''null'' \<and>
        valid_until r = 30010000)"
proof -
  have v: "validKeyRegex ''job-42''"
    by (simp add: validKeyRegex_def key_char_def)
  have f1: "lease_free Map.empty 0 ''job-42''"
    by (simp add: lease_free_def)
  have f2: "\<not> lease_free table_A 0 ''job-42''"
    by (simp add: lease_free_def table_A_def lease_A_def)
  have f3: "lease_free table_A 20000000 ''job-42''"
    by (simp add: lease_free_def table_A_def lease_A_def)
  have new: "try_acquire_lock Map.empty 0 ''job-42'' ''lease-A'' 10000 ''nonce-A'' ''null'' =
     (Inr (True, Some 10010000), table_A)"
    by (simp add: try_acquire_lock_def key_char_def table_A_def lease_A_def)
  note busy = try_acquire_lock_spec[OF v,
      of table_A 0 "''lease-B''" 10000 "''nonce-B''" "''null''"]
  note steal = try_acquire_lock_spec[OF v,
      of table_A 20000000 "''lease-B''" 10000 "''nonce-B''" "''null''"]
  show ?thesis using v f1 f2 f3 new busy steal by simp
qed

subsection \<open>Refresh\<close>



text \<open>
  Claim C3 has a refresh that comes too late, and in particular one for a lease already
  past its \<open>validUntil\<close>, rejected with \<open>ErrRefreshTooLate\<close>. \<open>Refresh\<close> returns that
  error only when the query ends in \<open>pgx.ErrNoRows\<close>, and the query of the statement
  never does: on a pool without a fault, for a lease past its \<open>valid_until\<close>, \<open>Refresh\<close>
  returns the server's refusal of the statement, which is not \<open>ErrRefreshTooLate\<close>. The
  lease is not extended.
\<close>

theorem Refresh_expired_not_too_late:
  assumes "fault pool = None" and "locks pool (Key token) = Some row"
    and "valid_until row \<le> now"
  shows "Refresh pool now token newTTL =
           (Inl (ErrBackend (PgError ''42601: syntax error at or near $'')), pool) \<and>
         fst (Refresh pool now token newTTL) \<noteq> Inl ErrRefreshTooLate"
  using assms(1) by (simp add: Refresh_reachable)

text \<open>A's lease at 20 s, ten seconds after its expiry, refreshed with A's token.\<close>

theorem Refresh_expired_not_too_late_witness:
  "fault pool_A = None \<and> locks pool_A (Key token_A) = Some lease_A \<and>
   valid_until lease_A \<le> 20000000 \<and>
   Refresh pool_A 20000000 token_A (10 * Second) =
     (Inl (ErrBackend (PgError ''42601: syntax error at or near $'')), pool_A) \<and>
   fst (Refresh pool_A 20000000 token_A (10 * Second)) \<noteq> Inl ErrRefreshTooLate"
proof -
  have h: "fault pool_A = None" "locks pool_A (Key token_A) = Some lease_A"
    "valid_until lease_A \<le> 20000000"
    by (simp_all add: pool_A_def table_A_def token_A_def lease_A_def)
  show ?thesis
    using h Refresh_expired_not_too_late[OF h, of "10 * Second"] by simp
qed

subsection \<open>Release\<close>

text \<open>
  Claim C4. On a pool without a fault, \<open>Release\<close> deletes the row of the token's key
  exactly when that row carries the token's lease id and nonce, and then returns no
  error. In every other case (no row for the key, or a row of another lease or nonce)
  no row is affected: the result is \<open>ErrLockOwnershipMismatch\<close> and the pool, with the
  current holder's row, is what it was. On a pool with a fault the call fails and
  deletes nothing.
\<close>

theorem Release_spec:
  "(fault pool = None \<and> token_matches (locks pool) t \<longrightarrow>
      Release pool t = (None, pool\<lparr>locks := (locks pool)(Key t := None)\<rparr>)) \<and>
   (fault pool = None \<and> \<not> token_matches (locks pool) t \<longrightarrow>
      Release pool t = (Some ErrLockOwnershipMismatch, pool)) \<and>
   (fault pool \<noteq> None \<longrightarrow> fst (Release pool t) \<noteq> None \<and> snd (Release pool t) = pool)"
  by (auto simp add: Release_def pool_Exec_def releaseLockSQL_def token_matches_def
      split: option.splits)

text \<open>
  A holds \<open>job-42\<close>. B's token for the same key is refused and A's row stays; a token
  for a key that was never locked is refused alike; A's own token deletes the row.
\<close>

theorem Release_spec_witness:
  "fault pool_A = None \<and> \<not> token_matches (locks pool_A) token_B \<and>
   Release pool_A token_B = (Some ErrLockOwnershipMismatch, pool_A) \<and>
   \<not> token_matches (locks pool_A) (token_A\<lparr>Key := ''job-43''\<rparr>) \<and>
   Release pool_A (token_A\<lparr>Key := ''job-43''\<rparr>) = (Some ErrLockOwnershipMismatch, pool_A) \<and>
   token_matches (locks pool_A) token_A \<and>
   Release pool_A token_A = (None, pool_A\<lparr>locks := (locks pool_A)(Key token_A := None)\<rparr>) \<and>
   locks (snd (Release pool_A token_A)) ''job-42'' = None"
proof -
  have o: "fault pool_A = None" by (simp add: pool_A_def)
  have mB: "\<not> token_matches (locks pool_A) token_B"
    by (simp add: token_matches_def pool_A_def table_A_def lease_A_def token_B_def)
  have mC: "\<not> token_matches (locks pool_A) (token_A\<lparr>Key := ''job-43''\<rparr>)"
    by (simp add: token_matches_def pool_A_def table_A_def lease_A_def token_A_def)
  have mA: "token_matches (locks pool_A) token_A"
    by (simp add: token_matches_def pool_A_def table_A_def lease_A_def token_A_def)
  have rB: "Release pool_A token_B = (Some ErrLockOwnershipMismatch, pool_A)"
    using Release_spec[of pool_A token_B] o mB by blast
  have rC: "Release pool_A (token_A\<lparr>Key := ''job-43''\<rparr>) =
            (Some ErrLockOwnershipMismatch, pool_A)"
    using Release_spec[of pool_A "token_A\<lparr>Key := ''job-43''\<rparr>"] o mC by blast
  have rA: "Release pool_A token_A =
            (None, pool_A\<lparr>locks := (locks pool_A)(Key token_A := None)\<rparr>)"
    using Release_spec[of pool_A token_A] o mA by blast
  have gone: "locks (snd (Release pool_A token_A)) ''job-42'' = None"
    by (subst rA) (simp add: token_A_def)
  show ?thesis using o mB mC mA rB rC rA gone by simp
qed

subsection \<open>The retry loop of Acquire\<close>



subsection \<open>Validation in Acquire\<close>

text \<open>
  Claim C6, as the code has it. \<open>Acquire\<close> returns a validation error exactly when the
  key does not match \<open>[A-Za-z0-9_-]{1,256}\<close>, or the TTL is outside \<open>[1 ms, 10 min]\<close>, or
  \<open>MaxRetries < 0\<close>, or \<open>JitterFactor\<close> is outside \<open>[0, 1]\<close>, or \<open>BackoffFactor < 1\<close>;
  \<open>BaseDelay\<close> and \<open>MaxDelay\<close> are not looked at. When it returns a validation error it
  has sent no query and slept no delay.
\<close>

theorem Acquire_validation:
  "(is_validation_error (fst (Acquire q key opts l n)) \<longleftrightarrow>
      \<not> (validKeyRegex key \<and>
         1 * Millisecond \<le> TTL opts \<and> TTL opts \<le> 10 * Minute \<and>
         0 \<le> MaxRetries (RetryStrategy opts) \<and>
         0 \<le> JitterFactor (RetryStrategy opts) \<and> JitterFactor (RetryStrategy opts) \<le> 1 \<and>
         1 \<le> BackoffFactor (RetryStrategy opts))) \<and>
   (is_validation_error (fst (Acquire q key opts l n)) \<longrightarrow>
      snd (Acquire q key opts l n) = ([], 0))"
proof (cases "ValidateKey key")
  case (Some e)
  then have "\<not> validKeyRegex key" "e = ErrInvalidKeyFormat key"
    by (auto simp add: ValidateKey_def split: if_splits)
  with Some show ?thesis by (simp add: Acquire_invalid_key)
next
  case None
  then have k: "validKeyRegex key"
    by (auto simp add: ValidateKey_def split: if_splits)
  show ?thesis
  proof (cases "fst (LockOptions_Validate opts)")
    case (Some e)
    have bad: "\<not> (1 * Millisecond \<le> TTL opts \<and> TTL opts \<le> 10 * Minute \<and>
         0 \<le> MaxRetries (RetryStrategy opts) \<and>
         0 \<le> JitterFactor (RetryStrategy opts) \<and> JitterFactor (RetryStrategy opts) \<le> 1 \<and>
         1 \<le> BackoffFactor (RetryStrategy opts))"
      using Some
      by (auto simp add: LockOptions_Validate_def RetryStrategy_Validate_def Let_def
          MinLockTTL_def MaxLockTTL_def split: if_splits)
    have "is_validation_error (Inl e)"
      using LockOptions_Validate_error[OF Some] by auto
    with bad show ?thesis
      using Acquire_invalid_opts[OF None Some, of q l n] by simp
  next
    case ok: None
    have good: "1 * Millisecond \<le> TTL opts \<and> TTL opts \<le> 10 * Minute \<and>
         0 \<le> MaxRetries (RetryStrategy opts) \<and>
         0 \<le> JitterFactor (RetryStrategy opts) \<and> JitterFactor (RetryStrategy opts) \<le> 1 \<and>
         1 \<le> BackoffFactor (RetryStrategy opts)"
      using ok
      by (auto simp add: LockOptions_Validate_def RetryStrategy_Validate_def Let_def
          MinLockTTL_def MaxLockTTL_def split: if_splits)
    have "\<not> is_validation_error (fst (Acquire q key opts l n))"
      using Acquire_valid[OF None ok, of q l n] Acquire_loop_not_validation by simp
    with k good show ?thesis by simp
  qed
qed

text \<open>
  The boundaries: a key with a space and a key of 257 characters are refused with no
  query sent; so are a TTL of 0 and one of 11 minutes; TTLs of 1 ms and of 10 minutes pass
  validation and the first attempt is made.
\<close>

theorem Acquire_validation_witness:
  "is_validation_error (fst (Acquire q_busy ''job 42'' opts_test ''lease-A'' ''nonce-A'')) \<and>
   snd (Acquire q_busy ''job 42'' opts_test ''lease-A'' ''nonce-A'') = ([], 0) \<and>
   Acquire q_busy (replicate 257 CHR ''a'') opts_test ''lease-A'' ''nonce-A'' =
     (Inl (ErrInvalidKeyFormat (replicate 257 CHR ''a'')), [], 0) \<and>
   Acquire q_busy ''job-42'' (opts_test\<lparr>TTL := 0\<rparr>) ''lease-A'' ''nonce-A'' =
     (Inl (ErrInvalidTTL 0), [], 0) \<and>
   Acquire q_busy ''job-42'' (opts_test\<lparr>TTL := 11 * Minute\<rparr>) ''lease-A'' ''nonce-A'' =
     (Inl (ErrInvalidTTL (11 * Minute)), [], 0) \<and>
   \<not> is_validation_error
       (fst (Acquire q_busy ''job-42'' (opts_test\<lparr>TTL := 1 * Millisecond\<rparr>) ''lease-A''
              ''nonce-A'')) \<and>
   \<not> is_validation_error
       (fst (Acquire q_busy ''job-42'' (opts_test\<lparr>TTL := 10 * Minute\<rparr>) ''lease-A''
              ''nonce-A''))"
proof -
  have vk: "validKeyRegex ''job-42''" "\<not> validKeyRegex ''job 42''"
    "\<not> validKeyRegex (replicate 257 CHR ''a'')"
    by (simp_all add: validKeyRegex_def key_char_def)
  have e1: "is_validation_error
              (fst (Acquire q_busy ''job 42'' opts_test ''lease-A'' ''nonce-A''))"
    using Acquire_validation[of q_busy "''job 42''" opts_test "''lease-A''" "''nonce-A''"] vk
    by blast
  then have e2: "snd (Acquire q_busy ''job 42'' opts_test ''lease-A'' ''nonce-A'') = ([], 0)"
    using Acquire_validation[of q_busy "''job 42''" opts_test "''lease-A''" "''nonce-A''"]
    by blast
  have e3: "Acquire q_busy (replicate 257 CHR ''a'') opts_test ''lease-A'' ''nonce-A'' =
     (Inl (ErrInvalidKeyFormat (replicate 257 CHR ''a'')), [], 0)"
    using vk(3) by (simp add: Acquire_def ValidateKey_def)
  have e4: "Acquire q_busy ''job-42'' (opts_test\<lparr>TTL := 0\<rparr>) ''lease-A'' ''nonce-A'' =
     (Inl (ErrInvalidTTL 0), [], 0)"
    using vk(1)
    by (simp add: Acquire_def ValidateKey_def LockOptions_Validate_def MinLockTTL_def
        Millisecond_def)
  have e5: "Acquire q_busy ''job-42'' (opts_test\<lparr>TTL := 11 * Minute\<rparr>) ''lease-A''
              ''nonce-A'' = (Inl (ErrInvalidTTL (11 * Minute)), [], 0)"
    using vk(1)
    by (simp add: Acquire_def ValidateKey_def LockOptions_Validate_def MinLockTTL_def
        MaxLockTTL_def Millisecond_def Second_def Minute_def)
  have s: "0 \<le> MaxRetries strategy_test \<and> 0 \<le> JitterFactor strategy_test \<and>
           JitterFactor strategy_test \<le> 1 \<and> 1 \<le> BackoffFactor strategy_test"
    by (simp add: strategy_test_def)
  have e6: "\<not> is_validation_error
       (fst (Acquire q_busy ''job-42'' (opts_test\<lparr>TTL := 1 * Millisecond\<rparr>) ''lease-A''
              ''nonce-A''))"
    using Acquire_validation[of q_busy "''job-42''" "opts_test\<lparr>TTL := 1 * Millisecond\<rparr>"
        "''lease-A''" "''nonce-A''"] vk(1) s
    by (simp add: opts_test_def Millisecond_def Second_def Minute_def)
  have e7: "\<not> is_validation_error
       (fst (Acquire q_busy ''job-42'' (opts_test\<lparr>TTL := 10 * Minute\<rparr>) ''lease-A''
              ''nonce-A''))"
    using Acquire_validation[of q_busy "''job-42''" "opts_test\<lparr>TTL := 10 * Minute\<rparr>"
        "''lease-A''" "''nonce-A''"] vk(1) s
    by (simp add: opts_test_def Millisecond_def Second_def Minute_def)
  show ?thesis using e1 e2 e3 e4 e5 e6 e7 by simp
qed

text \<open>
  Claim C6 as it is written also makes \<open>baseDelay > 0\<close> and \<open>maxDelay \<ge> baseDelay\<close>
  conditions of validation. The options below have both delays at 0, outside the bounds
  the specification gives, and \<open>Acquire\<close> accepts them: it sends its queries, sleeps 0
  between them, and returns the token that the third one grants.
\<close>

theorem Acquire_accepts_zero_base_delay:
  "\<not> spec_retry_bounds (RetryStrategy opts_zero_delay) \<and>
   \<not> is_validation_error
       (fst (Acquire q_third_grant ''job-42'' opts_zero_delay ''lease-A'' ''nonce-A'')) \<and>
   Acquire q_third_grant ''job-42'' opts_zero_delay ''lease-A'' ''nonce-A'' =
     (Inr \<lparr>Key = ''job-42'', LeaseID = ''lease-A'', ValidUntil = 10010000,
           ServerNonce = ''nonce-A''\<rparr>, [0, 0], 3)"
proof -
  have vk: "ValidateKey ''job-42'' = None"
    by (simp add: ValidateKey_def validKeyRegex_def key_char_def)
  have a: "\<not> spec_retry_bounds (RetryStrategy opts_zero_delay)"
    by (simp add: spec_retry_bounds_def opts_zero_delay_def)
  have v: "fst (LockOptions_Validate opts_zero_delay) = None"
    by (simp add: LockOptions_Validate_def RetryStrategy_Validate_def opts_zero_delay_def
        MinLockTTL_def MaxLockTTL_def Millisecond_def Second_def Minute_def Let_def)
  have m: "MaxRetries (RetryStrategy opts_zero_delay) = 5"
    and d: "CalculateBackoff (RetryStrategy opts_zero_delay) i = 0" for i
    by (simp_all add: opts_zero_delay_def CalculateBackoff_def)
  have b: "Acquire q_third_grant ''job-42'' opts_zero_delay ''lease-A'' ''nonce-A'' =
     (Inr \<lparr>Key = ''job-42'', LeaseID = ''lease-A'', ValidUntil = 10010000,
           ServerNonce = ''nonce-A''\<rparr>, [0, 0], 3)"
    unfolding Acquire_valid[OF vk v]
    by (simp add: Acquire_loop_retry[where vu = 0] Acquire_loop_grant[where vu = 10010000]
        q_third_grant_def m d)
  show ?thesis using a b by simp
qed

subsection \<open>CalculateBackoff\<close>

text \<open>
  Claim C7 asks for \<open>min(maxDelay, baseDelay \<times> backoffFactor^i)\<close> at every attempt of a
  strategy without jitter. The strategy below passes \<open>RetryStrategy.Validate\<close> and has no
  jitter, its factor is 1.5, and at attempt 1 the code returns 100 ms where the formula
  gives 150 ms: the power 1.5 is cut to 1 by the conversion to \<open>time.Duration\<close> before it
  multiplies \<open>BaseDelay\<close>. At attempt 2 the code returns 200 ms and the formula 225 ms.
\<close>

theorem CalculateBackoff_truncates_power:
  "RetryStrategy_Validate strategy_fractional = None \<and>
   JitterFactor strategy_fractional = 0 \<and>
   CalculateBackoff strategy_fractional 1 = 100 * Millisecond \<and>
   spec_backoff strategy_fractional 1 = real_of_int (150 * Millisecond) \<and>
   CalculateBackoff strategy_fractional 2 = 200 * Millisecond \<and>
   spec_backoff strategy_fractional 2 = real_of_int (225 * Millisecond)"
  by (simp add: RetryStrategy_Validate_def strategy_fractional_def CalculateBackoff_def
      spec_backoff_def trunc_def Let_def Millisecond_def Second_def power2_eq_square)

subsection \<open>After Close\<close>

text \<open>
  Claim C8 asks that operations on a closed adapter fail with \<open>ErrAdapterClosed\<close>.
  \<open>Close\<close> returns no error and closing twice leaves the pool as closing once does; but
  the adapter keeps no record of having been closed and no operation returns
  \<open>ErrAdapterClosed\<close>: after \<open>Close\<close>, \<open>Release\<close>, \<open>Refresh\<close> and \<open>IsHeld\<close> return the
  pool's own closed-pool error, and \<open>Acquire\<close>, whose every query then fails, returns
  something other than \<open>ErrAdapterClosed\<close> (on valid inputs, the pool's error wrapped
  as a failure to acquire).
\<close>

theorem closed_adapter_returns_pool_error:
  "fst (Close pool) = None \<and>
   snd (Close (snd (Close pool))) = snd (Close pool) \<and>
   Release (snd (Close pool)) token = (Some (ErrBackend ErrClosedPool), snd (Close pool)) \<and>
   Refresh (snd (Close pool)) now token newTTL =
     (Inl (ErrBackend ErrClosedPool), snd (Close pool)) \<and>
   IsHeld (snd (Close pool)) now token = (False, 0, Some (ErrBackend ErrClosedPool)) \<and>
   fst (Acquire (pool_scan (snd (Close pool)) q) key opts l n) \<noteq> Inl ErrAdapterClosed \<and>
   Acquire (pool_scan (snd (Close pool_A)) q_third_grant) ''job-42'' opts_test ''lease-B''
     ''nonce-B'' = (Inl (ErrFailedToAcquire ErrClosedPool), [], 1)"
proof -
  let ?p = "snd (Close pool)"
  have f: "fault ?p = Some ErrClosedPool" by (simp add: Close_def)
  have c: "fst (Close pool) = None \<and> snd (Close ?p) = ?p"
    by (simp add: Close_def)
  have r: "Release ?p token = (Some (ErrBackend ErrClosedPool), ?p)"
    using f by (simp add: Release_def pool_Exec_def)
  have rf: "Refresh ?p now token newTTL = (Inl (ErrBackend ErrClosedPool), ?p)"
    using f by (simp add: Refresh_fault)
  have h: "IsHeld ?p now token = (False, 0, Some (ErrBackend ErrClosedPool))"
    using f by (simp add: IsHeld_def pool_QueryRow_fault)
  have a: "fst (Acquire (pool_scan ?p q) key opts l n) \<noteq> Inl ErrAdapterClosed"
  proof (cases "ValidateKey key")
    case (Some e)
    then show ?thesis using ValidateKey_error[OF Some] by (simp add: Acquire_invalid_key)
  next
    case None
    show ?thesis
    proof (cases "fst (LockOptions_Validate opts)")
      case (Some e)
      then show ?thesis
        using LockOptions_Validate_error[OF Some] Acquire_invalid_opts[OF None Some]
        by auto
    next
      case ok: None
      show ?thesis
        using Acquire_loop_result[of "pool_scan ?p q" "RetryStrategy opts" key l n 0 "[]"]
        by (auto simp add: Acquire_valid[OF None ok])
    qed
  qed
  have v: "ValidateKey ''job-42'' = None" "fst (LockOptions_Validate opts_test) = None"
    using test_inputs_valid by simp_all
  have m: "int 0 \<le> MaxRetries (RetryStrategy opts_test)"
    by (simp add: opts_test_def strategy_test_def)
  have g: "Acquire (pool_scan (snd (Close pool_A)) q_third_grant) ''job-42'' opts_test
             ''lease-B'' ''nonce-B'' = (Inl (ErrFailedToAcquire ErrClosedPool), [], 1)"
    unfolding Acquire_valid[OF v]
    using Acquire_loop_abort[OF m, of "pool_scan (snd (Close pool_A)) q_third_grant"
        ErrClosedPool]
    by (simp add: pool_scan_def Close_def)
  show ?thesis using c r rf h a g by simp
qed

subsection \<open>IsHeld\<close>

text \<open>
  Claim C9. \<open>IsHeld\<close> reads the token's key only: two tokens with the same key get the
  same answer \<open>(held, remainingTTL, error)\<close> from the same pool at the same instant,
  whatever their lease ids, nonces and expiries. On a pool without a fault, a key with
  an unexpired lease is reported held to any token of that key.
\<close>

theorem IsHeld_key_only:
  "(Key t1 = Key t2 \<longrightarrow> IsHeld pool now t1 = IsHeld pool now t2) \<and>
   (fault pool = None \<and> locks pool (Key t) = Some row \<and> valid_until row > now \<longrightarrow>
      fst (IsHeld pool now t) = True)"
  by (auto simp add: IsHeld_def pool_QueryRow_def isHeldLockSQL_def split: option.splits)

text \<open>
  The lease of holder A, asked about with the token of another caller: the same answer
  as for A's own token, held, with ten whole seconds left.
\<close>

theorem IsHeld_key_only_witness:
  "Key token_B = Key token_A \<and> LeaseID token_B \<noteq> LeaseID token_A \<and>
   ServerNonce token_B \<noteq> ServerNonce token_A \<and> ValidUntil token_B \<noteq> ValidUntil token_A \<and>
   IsHeld pool_A 0 token_B = IsHeld pool_A 0 token_A \<and>
   fault pool_A = None \<and> locks pool_A (Key token_B) = Some lease_A \<and>
   valid_until lease_A > 0 \<and> fst (IsHeld pool_A 0 token_B) = True \<and>
   IsHeld pool_A 0 token_B = (True, 10 * Second, None)"
proof -
  have k: "Key token_B = Key token_A" by (simp add: token_A_def token_B_def)
  have h: "fault pool_A = None \<and> locks pool_A (Key token_B) = Some lease_A \<and>
           valid_until lease_A > 0"
    by (simp add: pool_A_def table_A_def token_B_def lease_A_def)
  have d: "LeaseID token_B \<noteq> LeaseID token_A \<and> ServerNonce token_B \<noteq> ServerNonce token_A \<and>
           ValidUntil token_B \<noteq> ValidUntil token_A"
    by (simp add: token_A_def token_B_def)
  have v: "IsHeld pool_A 0 token_B = (True, 10 * Second, None)"
    by (simp add: IsHeld_def pool_QueryRow_def isHeldLockSQL_def pool_A_def table_A_def
        token_B_def lease_A_def trunc_def Second_def Millisecond_def)
  from IsHeld_key_only[of token_B token_A pool_A 0 token_B lease_A] k h
  have "IsHeld pool_A 0 token_B = IsHeld pool_A 0 token_A \<and> fst (IsHeld pool_A 0 token_B) = True"
    by blast
  with k h d v show ?thesis by simp
qed

subsection \<open>HealthCheck\<close>

text \<open>
  Claim C10. Whatever the probe gives, the report of \<open>HealthCheck\<close> has an \<open>Error\<close>
  that is not nil. When the probe reads 1 the status is green and the error is a new
  error with the empty message.
\<close>

theorem HealthCheck_Error_never_nil:
  "Error (HealthCheck probe latency acquiredConns) \<noteq> None \<and>
   Status (HealthCheck (Inr 1) latency acquiredConns) = StatusGreen \<and>
   Error (HealthCheck (Inr 1) latency acquiredConns) = Some ''''"
  by (simp add: HealthCheck_def Let_def)

text \<open>
  A probe that reads 1 after 3 ms, and one that times out: both reports carry an error
  value, the first with the empty message and a green status.
\<close>

theorem HealthCheck_Error_never_nil_witness:
  "Error (HealthCheck (Inl (PgError ''timeout'')) (2 * Second) 0) \<noteq> None \<and>
   HealthCheck (Inl (PgError ''timeout'')) (2 * Second) 0 =
     \<lparr>Status = StatusRed, Latency = 2 * Second, Throughput = 0, Error = Some ''timeout''\<rparr> \<and>
   HealthCheck (pool_probe pool_A) (3 * Millisecond) 2 =
     \<lparr>Status = StatusGreen, Latency = 3 * Millisecond, Throughput = 2, Error = Some ''''\<rparr>"
  using HealthCheck_Error_never_nil[of "Inl (PgError ''timeout'')" "2 * Second" 0]
    HealthCheck_Error_never_nil[of "Inr 1" "3 * Millisecond" 2]
  by (simp add: HealthCheck_def Let_def pool_probe_def pool_QueryRow_def pool_A_def)

end
